theory Spec2Isabelle
  imports Main
begin

section \<open>Go values the proxy works with\<close>

text \<open>
  A Go \<^verbatim>\<open>error\<close> is \<open>error option\<close>: \<open>None\<close> is \<^verbatim>\<open>nil\<close>, and
  \<^verbatim>\<open>errors.New(s)\<close> is \<open>Some s\<close>. A panic is the left summand of a result.
\<close>

type_synonym error = string

datatype panic = NilPointerDereference | PanicMsg string

type_synonym conn = nat

datatype logline = Line string | LineInt string int | LineErr error | LineConn string conn

text \<open>
  \<^verbatim>\<open>time.Timer\<close>: \<open>armed\<close> says that the runtime timer is still active (it will send on
  its channel \<^verbatim>\<open>C\<close> when it expires), \<open>pending\<close> that \<^verbatim>\<open>C\<close> holds a value nobody has
  received. \<^verbatim>\<open>NewTimer\<close> arms it, expiry moves the value into \<^verbatim>\<open>C\<close>, a receive on
  \<^verbatim>\<open>C\<close> drains it, and \<^verbatim>\<open>Reset\<close> arms it again. \<^verbatim>\<open>Reset\<close> reads the timer through its
  pointer first, so on a nil pointer it panics.
\<close>

record timer =
  armed :: bool
  pending :: bool

definition NewTimer :: timer where
  "NewTimer = \<lparr>armed = True, pending = False\<rparr>"

definition expire :: "timer \<Rightarrow> timer" where
  "expire t = (if armed t then \<lparr>armed = False, pending = True\<rparr> else t)"

definition receiveC :: "timer \<Rightarrow> timer" where
  "receiveC t = t\<lparr>pending := False\<rparr>"

definition Reset :: "timer option \<Rightarrow> panic + timer" where
  "Reset p = (case p of None \<Rightarrow> Inl NilPointerDereference
                      | Some t \<Rightarrow> Inr (t\<lparr>armed := True\<rparr>))"

section \<open>The proxy and its constructor\<close>

text \<open>
  The fields of \<^verbatim>\<open>Proxy\<close> that the functions below read or write. \<open>sn\<close> is the
  pointer to the current \<^verbatim>\<open>daemon.Session\<close> (\<open>None\<close> is nil), \<open>pingTimer\<close> the
  pointer to the ping timer, \<open>log\<close> the lines written through \<^verbatim>\<open>px.log\<close>, oldest
  first. The embedded mutex is not a field: every function that takes it is one
  atomic step of the model.
\<close>

record 's Proxy =
  srvAddr :: string
  httpSrvAddr :: string
  withoutTeller :: bool
  sn :: "'s option"
  pingTimer :: "timer option"
  log :: "logline list"

record Config =
  SrvAddr :: string
  HTTPSrvAddr :: string
  HTTPSSrvAddr :: string
  AutoTLSHost :: string
  TLSCert :: string
  TLSKey :: string
  WithoutTeller :: bool

definition New :: "Config \<Rightarrow> 'a option \<Rightarrow> panic + 's Proxy" where
  "New cfg auth =
     (if auth = None then Inl (PanicMsg ''Auth is nil'')
      else if HTTPSrvAddr cfg = [] \<and> HTTPSSrvAddr cfg = [] then
        Inl (PanicMsg ''at least one of -http-service-addr, -https-service-addr must be set'')
      else if HTTPSSrvAddr cfg \<noteq> [] \<and> AutoTLSHost cfg = [] \<and> (TLSCert cfg = [] \<or> TLSKey cfg = []) then
        Inl (PanicMsg ''when using -tls, either -auto-tls-host or both -tls-cert and -tls-key must be set'')
      else if (TLSCert cfg = [] \<and> TLSKey cfg \<noteq> []) \<or> (TLSCert cfg \<noteq> [] \<and> TLSKey cfg = []) then
        Inl (PanicMsg ''-tls-cert and -tls-key must be set or unset together'')
      else if AutoTLSHost cfg \<noteq> [] \<and> (TLSKey cfg \<noteq> [] \<or> TLSCert cfg \<noteq> []) then
        Inl (PanicMsg ''either use -auto-tls-host or both -tls-key and -tls-cert'')
      else if HTTPSSrvAddr cfg = [] \<and> (AutoTLSHost cfg \<noteq> [] \<or> TLSKey cfg \<noteq> [] \<or> TLSCert cfg \<noteq> []) then
        Inl (PanicMsg ''-auto-tls-host or -tls-key or -tls-cert is set but -tls is not enabled'')
      else Inr \<lparr>srvAddr = SrvAddr cfg, httpSrvAddr = HTTPSrvAddr cfg,
                withoutTeller = WithoutTeller cfg, sn = None, pingTimer = None, log = []\<rparr>)"

definition setSession :: "'s option \<Rightarrow> 's Proxy \<Rightarrow> 's Proxy" where
  "setSession s px = px\<lparr>sn := s\<rparr>"

definition ResetPingTimer :: "'s Proxy \<Rightarrow> panic + 's Proxy" where
  "ResetPingTimer px =
     (case Reset (pingTimer px) of
        Inl p \<Rightarrow> Inl p
      | Inr t \<Rightarrow> Inr (px\<lparr>pingTimer := Some t\<rparr>))"

section \<open>write, writeWithContext, openStream\<close>

text \<open>
  \<^verbatim>\<open>daemon.Session\<close> is not among the sources, so its methods are parameters.
  \<open>'w\<close> is whatever they act on (connections, the multiplexer). \<open>Write\<close> receives
  the pointer as \<^verbatim>\<open>write\<close> passes it, nil included; the other methods are only
  reached behind a nil check and take the session itself.

  \<^verbatim>\<open>write\<close> sets \<^verbatim>\<open>err\<close> when \<^verbatim>\<open>px.sn\<close> is nil and goes on to \<^verbatim>\<open>px.sn.Write(m)\<close>;
  whatever \<^verbatim>\<open>Write\<close> returns is dropped, and the named result \<^verbatim>\<open>err\<close> is returned.
  (\<open>write\<close> is a keyword of Isabelle, hence the name \<open>write'\<close>.)
\<close>

definition write' ::
  "('s option \<Rightarrow> 'm \<Rightarrow> 'w \<Rightarrow> panic + (error option \<times> 'w)) \<Rightarrow>
   's Proxy \<Rightarrow> 'm \<Rightarrow> 'w \<Rightarrow> panic + (error option \<times> 'w)" where
  "write' Write px m w =
     (let err = (if sn px = None then Some ''write failed, session is nil'' else None)
      in case Write (sn px) m w of
           Inl p \<Rightarrow> Inl p
         | Inr (r, w') \<Rightarrow> Inr (err, w'))"

definition writeWithContext ::
  "('s \<Rightarrow> 'c \<Rightarrow> 'm \<Rightarrow> 'w \<Rightarrow> error option \<times> 'w) \<Rightarrow>
   's Proxy \<Rightarrow> 'c \<Rightarrow> 'm \<Rightarrow> 'w \<Rightarrow> error option \<times> 'w" where
  "writeWithContext WriteWithContext px cxt m w =
     (case sn px of
        None \<Rightarrow> (Some ''write failed, session is nil'', w)
      | Some s \<Rightarrow> WriteWithContext s cxt m w)"

text \<open>
  A \<^verbatim>\<open>closeStream\<close> is a closure over the proxy pointer: it reads \<^verbatim>\<open>px.sn\<close> when it is
  called, not when it was made, so it is a function of the proxy and the world at the
  time of the call. \<open>cf\<close> is the closure \<^verbatim>\<open>openStream\<close> builds for a subscription.
\<close>

type_synonym ('s, 'w) closeStream = "'s Proxy \<Rightarrow> 'w \<Rightarrow> 's Proxy \<times> 'w"

definition cf :: "('s \<Rightarrow> int \<Rightarrow> 'w \<Rightarrow> 'w) \<Rightarrow> int \<Rightarrow> ('s, 'w) closeStream" where
  "cf Unsub sid px w =
     (px\<lparr>log := log px @ [LineInt ''Close stream:'' sid]\<rparr>,
      case sn px of None \<Rightarrow> w | Some s \<Rightarrow> Unsub s sid w)"

definition openStream ::
  "('s \<Rightarrow> 'h \<Rightarrow> 'w \<Rightarrow> int \<times> 'w) \<Rightarrow> ('s \<Rightarrow> int \<Rightarrow> 'w \<Rightarrow> 'w) \<Rightarrow>
   's Proxy \<Rightarrow> 'h \<Rightarrow> 'w \<Rightarrow> (int \<times> ('s, 'w) closeStream \<times> error option) \<times> 's Proxy \<times> 'w" where
  "openStream Sub Unsub px f w =
     (case sn px of
        None \<Rightarrow> ((0, (\<lambda>p v. (p, v)), Some ''session is nil''), px, w)
      | Some s \<Rightarrow>
          (case Sub s f w of
             (sid, w') \<Rightarrow>
               ((sid, cf Unsub sid, None),
                px\<lparr>log := log px @ [LineInt ''Open stream:'' sid]\<rparr>, w')))"


section \<open>Starting a session\<close>

text \<open>
  \<^verbatim>\<open>newSession\<close> talks to three things outside the proxy: the handshake
  \<^verbatim>\<open>daemon.NewSession\<close>, the session's \<^verbatim>\<open>Run\<close> in its own goroutine, and the ping
  timer, which the clock and \<^verbatim>\<open>ResetPingTimer\<close> in other goroutines act on while the
  call runs. What they do is an input of the model.

  \<open>runerr\<close> is what \<^verbatim>\<open>sn.Run()\<close> returned: nil, the value \<^verbatim>\<open>io.EOF\<close> itself (the code
  compares with it by identity), or another error.

  A \<open>tick\<close> is something that happens to the timer from outside the call: it expires,
  or \<^verbatim>\<open>ResetPingTimer\<close> re-arms it. Whether \<^verbatim>\<open>Reset\<close> leaves a value that is already in
  the channel there depends on the Go release, so the event says which
  (\<open>ResetEv True\<close> keeps it).
\<close>

datatype runerr = RunNil | RunEOF | RunErr error

datatype tick = Expires | ResetEv bool

fun tickTimer :: "tick \<Rightarrow> timer \<Rightarrow> timer" where
  "tickTimer Expires t = expire t"
| "tickTimer (ResetEv keep) t = \<lparr>armed = True, pending = (pending t \<and> keep)\<rparr>"

definition ticks :: "tick list \<Rightarrow> timer \<Rightarrow> timer" where
  "ticks ts t = fold tickTimer ts t"

text \<open>
  \<open>fire\<close> is the receive \<^verbatim>\<open><-px.pingTimer.C\<close> of the \<^verbatim>\<open>select\<close>: it takes the value
  that is in the channel; when there is none the timer has to expire first.
\<close>

definition fire :: "timer \<Rightarrow> timer" where
  "fire t = receiveC (if pending t then t else expire t)"

text \<open>
  \<open>hs\<close> is the handshake's result. \<open>race\<close> says how the \<^verbatim>\<open>select\<close> went.
  \<open>RunFirst ts err\<close>: \<^verbatim>\<open>Run\<close>'s result \<open>err\<close> arrived on \<^verbatim>\<open>errC\<close>, and \<open>ts\<close> is what
  happened to the timer between its creation and the return of \<^verbatim>\<open>newSession\<close>.
  \<open>TimerFirst ts1 r ts2\<close>: the timer's channel was received, after \<open>ts1\<close> had happened
  to the timer; then \<^verbatim>\<open>wg.Wait()\<close> waits for \<^verbatim>\<open>Run\<close> to return after \<^verbatim>\<open>conn.Close()\<close>,
  \<open>r = None\<close> says that it never does, so that \<^verbatim>\<open>newSession\<close> never returns either
  (the result \<open>None\<close>), and \<open>ts2\<close> is what happened to the timer between the receive
  and the return.

  Next to the new proxy the model returns what the call did, in order, each effect
  with the slot \<^verbatim>\<open>px.sn\<close> as it is right after it (the log lines are in the
  proxy). \<open>eff\<close> does one effect of the call; \<open>outside\<close> is a change that is not the
  call's own. \<open>setSessionT\<close> is \<^verbatim>\<open>setSession\<close>
  as the source has it: \<^verbatim>\<open>px.Lock()\<close>, the write of \<^verbatim>\<open>px.sn\<close>, \<^verbatim>\<open>px.Unlock()\<close>.
\<close>

datatype race = RunFirst "tick list" runerr | TimerFirst "tick list" "runerr option" "tick list"

datatype 's effect =
    Lock
  | SetSession "'s option"
  | Unlock
  | ArmTimer
  | RunDone runerr
  | TimerFired
  | CloseConn conn

type_synonym 's call = "'s Proxy \<times> ('s effect \<times> 's option) list"

definition eff :: "'s effect \<Rightarrow> ('s Proxy \<Rightarrow> 's Proxy) \<Rightarrow> 's call \<Rightarrow> 's call" where
  "eff a f c = (f (fst c), snd c @ [(a, sn (f (fst c)))])"

definition outside :: "('s Proxy \<Rightarrow> 's Proxy) \<Rightarrow> 's call \<Rightarrow> 's call" where
  "outside f c = (f (fst c), snd c)"

definition logln :: "logline \<Rightarrow> 's Proxy \<Rightarrow> 's Proxy" where
  "logln l px = px\<lparr>log := log px @ [l]\<rparr>"

definition logT :: "logline \<Rightarrow> 's call \<Rightarrow> 's call" where
  "logT l c = (logln l (fst c), snd c)"

definition setSessionT :: "'s option \<Rightarrow> 's call \<Rightarrow> 's call" where
  "setSessionT s c = eff Unlock (\<lambda>p. p) (eff (SetSession s) (setSession s) (eff Lock (\<lambda>p. p) c))"

definition onTimer :: "(timer \<Rightarrow> timer) \<Rightarrow> 's Proxy \<Rightarrow> 's Proxy" where
  "onTimer g px = px\<lparr>pingTimer := map_option g (pingTimer px)\<rparr>"

definition logRunErr :: "runerr \<Rightarrow> 's Proxy \<Rightarrow> 's Proxy" where
  "logRunErr err px =
     (case err of
        RunNil \<Rightarrow> px
      | RunEOF \<Rightarrow> px
      | RunErr e \<Rightarrow> logln (LineErr e) px)"

definition newSession ::
  "'s Proxy \<Rightarrow> conn \<Rightarrow> error + 's \<Rightarrow> race \<Rightarrow> 's call option" where
  "newSession px conn hs race =
     (let c0 = (logln (Line ''New session'') px, [])
      in case hs of
           Inl err \<Rightarrow>
             Some (logT (Line ''Session closed'') (logT (LineErr err) c0))
         | Inr s \<Rightarrow>
             (let c1 = setSessionT (Some s) c0;
                  c2 = eff ArmTimer (\<lambda>p. p\<lparr>pingTimer := Some NewTimer\<rparr>) c1
              in case race of
                   RunFirst ts err \<Rightarrow>
                     Some (logT (Line ''Session closed'')
                            (setSessionT None
                              (outside (onTimer (ticks ts))
                                (eff (RunDone err) (logRunErr err) c2))))
                 | TimerFirst ts1 r ts2 \<Rightarrow>
                     (case r of
                        None \<Rightarrow> None
                      | Some err \<Rightarrow>
                          Some (logT (Line ''Session closed'')
                                 (setSessionT None
                                   (outside (onTimer (ticks ts2))
                                     (eff (RunDone err) (\<lambda>p. p)
                                       (eff (CloseConn conn) (\<lambda>p. p)
                                         (eff TimerFired (onTimer fire)
                                           (outside (onTimer (ticks ts1)) c2))))))))))"

section \<open>A session and a multiplexer to run the model on\<close>

text \<open>
  Modelled from the spec: \<^verbatim>\<open>daemon.Session\<close> and \<^verbatim>\<open>daemon.Mux\<close> (package
  \<^verbatim>\<open>daemon\<close>) are not among the sources. The spec gives the session
  \<^verbatim>\<open>write(message) -> error\<close>, \<^verbatim>\<open>writeWithContext\<close>, \<^verbatim>\<open>subscribe(handler) -> id\<close> and
  \<^verbatim>\<open>unsubscribe(id)\<close>. Of a subscription id it says that it is an integer handle
  returned on subscribe, unique among the currently active subscriptions, owned by the
  caller that obtained it until that caller invokes the paired close function, and that
  ids do not outlive the session they were issued against.

  So a subscription is recorded with its id, the session it was made on and its
  handler; ids come from a counter and are never handed out twice (an id stays its
  caller's); \<open>mUnsub\<close> on a session removes that session's subscription of that id;
  and \<open>endSession\<close>, the end of a session, removes the session's subscriptions.
  A session is named by a number; \<open>broken\<close> lists the sessions whose connection fails on
  write. \<open>mWrite\<close> reads its receiver, so a nil receiver is a nil pointer dereference.
\<close>

record 'h world =
  subs :: "(int \<times> nat \<times> 'h) list"
  nextId :: int
  sent :: "(nat \<times> string) list"
  broken :: "nat list"

definition mWrite :: "nat option \<Rightarrow> string \<Rightarrow> 'h world \<Rightarrow> panic + (error option \<times> 'h world)" where
  "mWrite p m w =
     (case p of
        None \<Rightarrow> Inl NilPointerDereference
      | Some s \<Rightarrow>
          if s \<in> set (broken w) then Inr (Some ''broken pipe'', w)
          else Inr (None, w\<lparr>sent := sent w @ [(s, m)]\<rparr>))"

definition mWriteWithContext :: "nat \<Rightarrow> unit \<Rightarrow> string \<Rightarrow> 'h world \<Rightarrow> error option \<times> 'h world" where
  "mWriteWithContext s cxt m w =
     (if s \<in> set (broken w) then (Some ''broken pipe'', w)
      else (None, w\<lparr>sent := sent w @ [(s, m)]\<rparr>))"








definition world0 :: "string world" where
  "world0 = \<lparr>subs = [], nextId = 0, sent = [], broken = [2]\<rparr>"

definition config0 :: Config where
  "config0 = \<lparr>SrvAddr = ''0.0.0.0:7070'', HTTPSrvAddr = ''127.0.0.1:7071'', HTTPSSrvAddr = [],
               AutoTLSHost = [], TLSCert = [], TLSKey = [], WithoutTeller = False\<rparr>"

definition px0 :: "nat Proxy" where
  "px0 = \<lparr>srvAddr = ''0.0.0.0:7070'', httpSrvAddr = ''127.0.0.1:7071'', withoutTeller = False,
           sn = None, pingTimer = None, log = []\<rparr>"

section \<open>Run: the goroutines of the proxy as a transition system\<close>

text \<open>
  \<^verbatim>\<open>Run\<close> starts the handler loop (\<^verbatim>\<open>handleConnection\<close>), the accept loop, the worker
  of \<^verbatim>\<open>reqC\<close> and the HTTP worker, a goroutine that waits for the wait group and closes
  \<^verbatim>\<open>done\<close>, and then selects on \<^verbatim>\<open>done\<close> and \<^verbatim>\<open>errC\<close>. The model is a state of all of
  them and one event for each step a goroutine takes between two points where it waits.
  Time is left out: a \<^verbatim>\<open>time.After\<close> case of a \<^verbatim>\<open>select\<close> may be taken whenever the
  goroutine waits there, and a \<^verbatim>\<open>select\<close> with several ready cases takes any of them.

  The accept loop waits in \<^verbatim>\<open>ln.Accept()\<close> or, holding a connection, in the \<^verbatim>\<open>select\<close>
  that offers it on \<^verbatim>\<open>connC\<close>.
\<close>

datatype acceptor = Accepting | Offering conn | AcceptorExited

text \<open>
  The handler loop waits in its outer \<^verbatim>\<open>select\<close> (\<open>AwaitConn\<close>), in its inner
  \<^verbatim>\<open>select\<close> holding a connection (\<open>AwaitExec\<close>), or inside \<^verbatim>\<open>exec(conn)\<close>, that is
  \<^verbatim>\<open>newSession\<close>: in the handshake (\<open>Handshaking\<close>), in the \<^verbatim>\<open>select\<close> on \<^verbatim>\<open>errC\<close> and the
  ping timer (\<open>Racing\<close>), or in \<^verbatim>\<open>wg.Wait()\<close> after the timer fired and the connection
  was closed (\<open>Closing\<close>).
\<close>

datatype 's handler =
    AwaitConn
  | AwaitExec conn
  | Handshaking conn
  | Racing conn 's
  | Closing conn 's
  | HandlerExited

text \<open>
  The worker of \<^verbatim>\<open>reqC\<close> waits in its \<^verbatim>\<open>select\<close> or runs the request \<^verbatim>\<open>req()\<close> it
  received. A request is the closure \<^verbatim>\<open>strand\<close> sends: it runs the caller's \<^verbatim>\<open>f\<close> and
  closes the caller's channel \<^verbatim>\<open>q\<close>. A caller of \<^verbatim>\<open>strand\<close> is named by a number, and
  its \<^verbatim>\<open>f\<close> is a function on the data \<open>'d\<close> that the submitted functions work on.
\<close>

datatype 'd funnel = FunnelIdle | Serving nat "'d \<Rightarrow> 'd" | FunnelExited

record ('s, 'd) system =
  proxy :: "'s Proxy"
  quit :: bool
  lnOpen :: bool
  acceptor :: acceptor
  handler :: "'s handler"
  execFuncC :: bool
  closed :: "conn list"
  snClosed :: "'s list"
  funnel :: "'d funnel"
  senders :: "(nat \<times> ('d \<Rightarrow> 'd)) list"
  received :: "nat list"
  finished :: "(nat \<times> ('d \<Rightarrow> 'd)) list"
  returned :: "nat list"
  data :: 'd
  http :: bool
  errC :: "error option"
  wg :: nat
  done' :: bool
  result :: "error option option"

text \<open>
  \<open>quit\<close> and \<open>done'\<close> say that the channel is closed; \<open>lnOpen\<close> that the listener is
  open; \<open>execFuncC\<close> that the one-slot channel holds the token \<^verbatim>\<open>px.newSession\<close>;
  \<open>closed\<close> lists the connections the proxy has closed and \<open>snClosed\<close> the sessions
  \<^verbatim>\<open>closeSession\<close> has closed. \<open>senders\<close> are the callers of \<^verbatim>\<open>strand\<close> blocked in
  \<^verbatim>\<open>px.reqC <- ...\<close>, \<open>received\<close> the callers whose request the worker has received,
  \<open>finished\<close> those whose request has run and whose \<^verbatim>\<open>q\<close> is closed, \<open>returned\<close> those
  whose \<^verbatim>\<open>strand\<close> has returned, each in the order it happened. \<open>http\<close> says that
  \<^verbatim>\<open>httpServ.Run()\<close> has not returned; \<open>errC\<close> is the one-slot channel of \<^verbatim>\<open>Run\<close>,
  \<open>wg\<close> the counter of its wait group, and \<open>result\<close> what \<^verbatim>\<open>Run\<close> has returned
  (\<open>None\<close> while it has not).

  \<^verbatim>\<open>Run\<close> up to its \<^verbatim>\<open>select\<close>: \<open>listen\<close> is the error of \<^verbatim>\<open>net.Listen\<close>. With
  \<^verbatim>\<open>withoutTeller\<close> only the HTTP worker is started; the model writes the three goroutines
  that never start as exited. The handler loop has put \<^verbatim>\<open>px.newSession\<close> into
  \<^verbatim>\<open>execFuncC\<close>.
\<close>

definition start :: "'s Proxy \<Rightarrow> 'd \<Rightarrow> ('s, 'd) system" where
  "start p d =
     \<lparr>proxy = p, quit = False, lnOpen = \<not> withoutTeller p,
      acceptor = (if withoutTeller p then AcceptorExited else Accepting),
      handler = (if withoutTeller p then HandlerExited else AwaitConn),
      execFuncC = \<not> withoutTeller p, closed = [], snClosed = [],
      funnel = (if withoutTeller p then FunnelExited else FunnelIdle),
      senders = [], received = [], finished = [], returned = [], data = d,
      http = True, errC = None, wg = (if withoutTeller p then 1 else 4),
      done' = False, result = None\<rparr>"

definition Run :: "'s Proxy \<Rightarrow> error option \<Rightarrow> 'd \<Rightarrow> error + ('s, 'd) system" where
  "Run p listen d =
     (if \<not> withoutTeller p then
        (case listen of Some err \<Rightarrow> Inl err | None \<Rightarrow> Inr (start p d))
      else Inr (start p d))"

datatype ('s, 'd) event =
    Accept conn
  | AcceptError error
  | OfferTimeout
  | Handoff
  | HandlerQuit
  | ExecTimeout
  | Exec
  | HandshakeFails error
  | HandshakeOK 's
  | RunReturns runerr
  | PingTimeout
  | RunReturnsAfterClose runerr
  | Strand nat "'d \<Rightarrow> 'd"
  | FunnelRecv nat
  | FunnelDone
  | StrandReturn nat
  | FunnelQuit
  | HttpReturns "error option"
  | WaitDone
  | ReturnNil
  | ReturnErr
  | Shutdown

subsection \<open>The accept loop\<close>

text \<open>
  \<^verbatim>\<open>ln.Accept()\<close> returns a connection (only while the listener is open) or an error;
  on an error the loop returns when \<^verbatim>\<open>quit\<close> is closed and goes on otherwise. Holding
  a connection, it closes it when \<^verbatim>\<open>time.After(1 * time.Second)\<close> fires, or hands it
  to the handler loop: \<^verbatim>\<open>connC\<close> has no buffer, so the send and the receive of the outer
  \<^verbatim>\<open>select\<close> of \<^verbatim>\<open>handleConnection\<close> are one step, \<open>handoff\<close>.
\<close>

definition accept :: "conn \<Rightarrow> ('s, 'd) system \<Rightarrow> ('s, 'd) system option" where
  "accept c st =
     (if acceptor st = Accepting \<and> lnOpen st then Some (st\<lparr>acceptor := Offering c\<rparr>) else None)"

definition acceptError :: "error \<Rightarrow> ('s, 'd) system \<Rightarrow> ('s, 'd) system option" where
  "acceptError e st =
     (if acceptor st = Accepting then
        (if quit st then Some (st\<lparr>acceptor := AcceptorExited, wg := wg st - 1\<rparr>)
         else Some (st\<lparr>proxy := logln (LineErr e) (proxy st)\<rparr>))
      else None)"

definition offerTimeout :: "('s, 'd) system \<Rightarrow> ('s, 'd) system option" where
  "offerTimeout st =
     (case acceptor st of
        Offering c \<Rightarrow>
          Some (st\<lparr>proxy := logln (LineConn ''Close connection, only one connection is allowed'' c) (proxy st),
                   closed := closed st @ [c], acceptor := Accepting\<rparr>)
      | _ \<Rightarrow> None)"

definition handoff :: "('s, 'd) system \<Rightarrow> ('s, 'd) system option" where
  "handoff st =
     (case acceptor st of
        Offering c \<Rightarrow>
          (if handler st = AwaitConn then Some (st\<lparr>acceptor := Accepting, handler := AwaitExec c\<rparr>)
           else None)
      | _ \<Rightarrow> None)"

subsection \<open>The handler loop and the session it runs\<close>

text \<open>
  In the outer \<^verbatim>\<open>select\<close> the loop returns when \<^verbatim>\<open>quit\<close> is closed (\<open>handlerQuit\<close>) or
  receives a connection (\<open>handoff\<close>). In the inner \<^verbatim>\<open>select\<close> it closes the connection
  and returns when \<^verbatim>\<open>time.After(2 * time.Second)\<close> fires (\<open>execTimeout\<close>), or takes the
  token from \<^verbatim>\<open>execFuncC\<close> and calls it (\<open>exec\<close>). When the call returns it returns if
  \<^verbatim>\<open>quit\<close> is closed and puts the token back otherwise (\<open>recycle\<close>).
\<close>

definition handlerQuit :: "('s, 'd) system \<Rightarrow> ('s, 'd) system option" where
  "handlerQuit st =
     (if handler st = AwaitConn \<and> quit st
      then Some (st\<lparr>handler := HandlerExited, wg := wg st - 1\<rparr>) else None)"

definition execTimeout :: "('s, 'd) system \<Rightarrow> ('s, 'd) system option" where
  "execTimeout st =
     (case handler st of
        AwaitExec c \<Rightarrow>
          Some (st\<lparr>proxy := logln (LineConn ''Close connection, only one connection is allowed'' c) (proxy st),
                   closed := closed st @ [c], handler := HandlerExited, wg := wg st - 1\<rparr>)
      | _ \<Rightarrow> None)"

definition exec :: "('s, 'd) system \<Rightarrow> ('s, 'd) system option" where
  "exec st =
     (case handler st of
        AwaitExec c \<Rightarrow>
          (if execFuncC st
           then Some (st\<lparr>execFuncC := False, handler := Handshaking c,
                         proxy := logln (Line ''New session'') (proxy st)\<rparr>)
           else None)
      | _ \<Rightarrow> None)"

definition recycle :: "('s, 'd) system \<Rightarrow> ('s, 'd) system" where
  "recycle st =
     (if quit st then st\<lparr>handler := HandlerExited, wg := wg st - 1\<rparr>
      else st\<lparr>execFuncC := True, handler := AwaitConn\<rparr>)"

text \<open>
  The steps of \<^verbatim>\<open>newSession\<close>, with the same updates of the proxy as the function
  \<open>newSession\<close> above: the handshake fails and the call returns; the handshake
  succeeds, the session is registered, the timer is created and \<^verbatim>\<open>Run\<close> is started;
  \<^verbatim>\<open>Run\<close>'s result arrives on \<^verbatim>\<open>errC\<close> first, the slot is cleared and the call returns;
  the timer's channel is received first and the connection is closed; \<^verbatim>\<open>Run\<close> returns
  after that, the slot is cleared and the call returns.
\<close>

definition handshakeFails :: "error \<Rightarrow> ('s, 'd) system \<Rightarrow> ('s, 'd) system option" where
  "handshakeFails e st =
     (case handler st of
        Handshaking c \<Rightarrow>
          Some (recycle (st\<lparr>proxy := logln (Line ''Session closed'') (logln (LineErr e) (proxy st))\<rparr>))
      | _ \<Rightarrow> None)"

definition handshakeOK :: "'s \<Rightarrow> ('s, 'd) system \<Rightarrow> ('s, 'd) system option" where
  "handshakeOK s st =
     (case handler st of
        Handshaking c \<Rightarrow>
          Some (st\<lparr>proxy := (setSession (Some s) (proxy st))\<lparr>pingTimer := Some NewTimer\<rparr>,
                   handler := Racing c s\<rparr>)
      | _ \<Rightarrow> None)"

definition runReturns :: "runerr \<Rightarrow> ('s, 'd) system \<Rightarrow> ('s, 'd) system option" where
  "runReturns err st =
     (case handler st of
        Racing c s \<Rightarrow>
          Some (recycle (st\<lparr>proxy := logln (Line ''Session closed'')
                                    (setSession None (logRunErr err (proxy st)))\<rparr>))
      | _ \<Rightarrow> None)"

definition pingTimeout :: "('s, 'd) system \<Rightarrow> ('s, 'd) system option" where
  "pingTimeout st =
     (case handler st of
        Racing c s \<Rightarrow>
          Some (st\<lparr>proxy := onTimer fire (proxy st),
                   closed := closed st @ [c], handler := Closing c s\<rparr>)
      | _ \<Rightarrow> None)"

definition runReturnsAfterClose :: "runerr \<Rightarrow> ('s, 'd) system \<Rightarrow> ('s, 'd) system option" where
  "runReturnsAfterClose err st =
     (case handler st of
        Closing c s \<Rightarrow>
          Some (recycle (st\<lparr>proxy := logln (Line ''Session closed'') (setSession None (proxy st))\<rparr>))
      | _ \<Rightarrow> None)"

subsection \<open>strand and the worker of reqC\<close>

text \<open>
  A caller of \<^verbatim>\<open>strand\<close> blocks in the send on \<^verbatim>\<open>reqC\<close>, which has no buffer. The worker
  receives the request of one of the blocked callers, runs it (the caller's \<^verbatim>\<open>f\<close>, then
  \<^verbatim>\<open>close(q)\<close>), and goes back to its \<^verbatim>\<open>select\<close>, where it returns when \<^verbatim>\<open>quit\<close> is
  closed. The caller returns from \<^verbatim>\<open><-q\<close> once \<^verbatim>\<open>q\<close> is closed.
\<close>

definition strand :: "nat \<Rightarrow> ('d \<Rightarrow> 'd) \<Rightarrow> ('s, 'd) system \<Rightarrow> ('s, 'd) system option" where
  "strand i f st =
     (if i \<notin> set (map fst (senders st)) \<and> i \<notin> set (received st)
      then Some (st\<lparr>senders := senders st @ [(i, f)]\<rparr>) else None)"

definition funnelRecv :: "nat \<Rightarrow> ('s, 'd) system \<Rightarrow> ('s, 'd) system option" where
  "funnelRecv i st =
     (case funnel st of
        FunnelIdle \<Rightarrow>
          (case map_of (senders st) i of
             Some f \<Rightarrow>
               Some (st\<lparr>funnel := Serving i f,
                        senders := filter (\<lambda>p. fst p \<noteq> i) (senders st),
                        received := received st @ [i]\<rparr>)
           | None \<Rightarrow> None)
      | _ \<Rightarrow> None)"

definition funnelDone :: "('s, 'd) system \<Rightarrow> ('s, 'd) system option" where
  "funnelDone st =
     (case funnel st of
        Serving i f \<Rightarrow>
          Some (st\<lparr>data := f (data st), finished := finished st @ [(i, f)], funnel := FunnelIdle\<rparr>)
      | _ \<Rightarrow> None)"

definition strandReturn :: "nat \<Rightarrow> ('s, 'd) system \<Rightarrow> ('s, 'd) system option" where
  "strandReturn i st =
     (if i \<in> set (map fst (finished st)) \<and> i \<notin> set (returned st)
      then Some (st\<lparr>returned := returned st @ [i]\<rparr>) else None)"

definition funnelQuit :: "('s, 'd) system \<Rightarrow> ('s, 'd) system option" where
  "funnelQuit st =
     (case funnel st of
        FunnelIdle \<Rightarrow>
          (if quit st then Some (st\<lparr>funnel := FunnelExited, wg := wg st - 1\<rparr>) else None)
      | _ \<Rightarrow> None)"

subsection \<open>The HTTP worker, the join, Run's select, Shutdown\<close>

text \<open>
  \<^verbatim>\<open>httpServ.Run()\<close> returns \<open>r\<close>; an error is sent on \<^verbatim>\<open>errC\<close> unless \<^verbatim>\<open>quit\<close> is closed.
  The waiting goroutine closes \<^verbatim>\<open>done\<close> when the wait group's counter is zero. \<^verbatim>\<open>Run\<close>
  returns nil when it receives from \<^verbatim>\<open>done\<close> and the error when it receives from
  \<^verbatim>\<open>errC\<close>. \<^verbatim>\<open>Shutdown\<close> closes \<^verbatim>\<open>quit\<close>, closes the listener and closes the current
  session if there is one; closing \<^verbatim>\<open>quit\<close> a second time would panic, so the step is
  there only while \<^verbatim>\<open>quit\<close> is open.
\<close>

definition httpReturns :: "error option \<Rightarrow> ('s, 'd) system \<Rightarrow> ('s, 'd) system option" where
  "httpReturns r st =
     (if http st then
        Some (st\<lparr>http := False,
                 errC := (case r of None \<Rightarrow> errC st
                          | Some e \<Rightarrow> if quit st then errC st else Some e),
                 wg := wg st - 1\<rparr>)
      else None)"

definition waitDone :: "('s, 'd) system \<Rightarrow> ('s, 'd) system option" where
  "waitDone st = (if wg st = 0 \<and> \<not> done' st then Some (st\<lparr>done' := True\<rparr>) else None)"

definition returnNil :: "('s, 'd) system \<Rightarrow> ('s, 'd) system option" where
  "returnNil st =
     (if done' st \<and> result st = None then Some (st\<lparr>result := Some None\<rparr>) else None)"

definition returnErr :: "('s, 'd) system \<Rightarrow> ('s, 'd) system option" where
  "returnErr st =
     (case errC st of
        Some e \<Rightarrow>
          (if result st = None then Some (st\<lparr>result := Some (Some e), errC := None\<rparr>) else None)
      | None \<Rightarrow> None)"

definition closeSession :: "('s, 'd) system \<Rightarrow> ('s, 'd) system" where
  "closeSession st =
     (case sn (proxy st) of
        None \<Rightarrow> st
      | Some s \<Rightarrow> st\<lparr>snClosed := snClosed st @ [s]\<rparr>)"

definition shutdown :: "('s, 'd) system \<Rightarrow> ('s, 'd) system option" where
  "shutdown st =
     (if quit st then None
      else Some (closeSession (st\<lparr>quit := True, lnOpen := False\<rparr>)))"

subsection \<open>Steps and runs\<close>

fun step :: "('s, 'd) event \<Rightarrow> ('s, 'd) system \<Rightarrow> ('s, 'd) system option" where
  "step (Accept c) st = accept c st"
| "step (AcceptError e) st = acceptError e st"
| "step OfferTimeout st = offerTimeout st"
| "step Handoff st = handoff st"
| "step HandlerQuit st = handlerQuit st"
| "step ExecTimeout st = execTimeout st"
| "step Exec st = exec st"
| "step (HandshakeFails e) st = handshakeFails e st"
| "step (HandshakeOK s) st = handshakeOK s st"
| "step (RunReturns err) st = runReturns err st"
| "step PingTimeout st = pingTimeout st"
| "step (RunReturnsAfterClose err) st = runReturnsAfterClose err st"
| "step (Strand i f) st = strand i f st"
| "step (FunnelRecv i) st = funnelRecv i st"
| "step FunnelDone st = funnelDone st"
| "step (StrandReturn i) st = strandReturn i st"
| "step FunnelQuit st = funnelQuit st"
| "step (HttpReturns r) st = httpReturns r st"
| "step WaitDone st = waitDone st"
| "step ReturnNil st = returnNil st"
| "step ReturnErr st = returnErr st"
| "step Shutdown st = shutdown st"

text \<open>
  A run is a list of events, each enabled in the state the ones before it lead to;
  \<open>None\<close> when one of them is not.
\<close>

fun run :: "('s, 'd) event list \<Rightarrow> ('s, 'd) system \<Rightarrow> ('s, 'd) system option" where
  "run [] st = Some st"
| "run (e # es) st = (case step e st of None \<Rightarrow> None | Some st' \<Rightarrow> run es st')"

subsection \<open>What holds in every state a run reaches\<close>

text \<open>
  \<open>slot_inv\<close>: the slot holds a session exactly while the handler loop is inside
  \<^verbatim>\<open>newSession\<close> past the handshake, and then it holds that call's session.
  \<open>token_inv\<close>: the token is in \<^verbatim>\<open>execFuncC\<close> while the handler loop waits in one of
  its two \<^verbatim>\<open>select\<close>s and is not while it is inside \<^verbatim>\<open>exec(conn)\<close>.
  \<open>running\<close> counts the goroutines of the wait group that have not returned.
\<close>

fun slotOf :: "'s handler \<Rightarrow> 's option" where
  "slotOf (Racing c s) = Some s"
| "slotOf (Closing c s) = Some s"
| "slotOf h = None"

definition slot_inv :: "('s, 'd) system \<Rightarrow> bool" where
  "slot_inv st \<longleftrightarrow> sn (proxy st) = slotOf (handler st)"

fun tokenOf :: "'s handler \<Rightarrow> bool \<Rightarrow> bool" where
  "tokenOf AwaitConn t = t"
| "tokenOf (AwaitExec c) t = t"
| "tokenOf HandlerExited t = True"
| "tokenOf h t = (\<not> t)"

definition token_inv :: "('s, 'd) system \<Rightarrow> bool" where
  "token_inv st \<longleftrightarrow> tokenOf (handler st) (execFuncC st)"

fun acceptorRuns :: "acceptor \<Rightarrow> nat" where
  "acceptorRuns AcceptorExited = 0"
| "acceptorRuns a = 1"

fun handlerRuns :: "'s handler \<Rightarrow> nat" where
  "handlerRuns HandlerExited = 0"
| "handlerRuns h = 1"

fun funnelRuns :: "'d funnel \<Rightarrow> nat" where
  "funnelRuns FunnelExited = 0"
| "funnelRuns f = 1"

definition running :: "('s, 'd) system \<Rightarrow> nat" where
  "running st =
     acceptorRuns (acceptor st) + handlerRuns (handler st) + funnelRuns (funnel st) +
     (if http st then 1 else 0)"

definition join_inv :: "('s, 'd) system \<Rightarrow> bool" where
  "join_inv st \<longleftrightarrow>
     wg st = running st \<and> (done' st \<longrightarrow> wg st = 0) \<and> (result st = Some None \<longrightarrow> done' st)"

fun servingOf :: "'d funnel \<Rightarrow> nat list" where
  "servingOf (Serving i f) = [i]"
| "servingOf w = []"

text \<open>
  \<open>err_inv\<close>: while \<^verbatim>\<open>httpServ.Run()\<close> has not returned, nothing has been sent on
  \<^verbatim>\<open>errC\<close> and \<^verbatim>\<open>Run\<close> has returned no error. \<open>funnel_inv\<close>, for the data \<open>d\<close> the run
  started with: the requests received are the finished ones, in that order, and then
  the one being run; the data is what the finished functions make of \<open>d\<close>, applied one
  after the other in that order; a caller has returned only if its request is
  finished; no caller was received twice, and no blocked caller has been received.
\<close>

definition err_inv :: "('s, 'd) system \<Rightarrow> bool" where
  "err_inv st \<longleftrightarrow>
     (http st \<longrightarrow> errC st = None \<and> (result st = None \<or> result st = Some None))"

definition funnel_inv :: "'d \<Rightarrow> ('s, 'd) system \<Rightarrow> bool" where
  "funnel_inv d st \<longleftrightarrow>
     received st = map fst (finished st) @ servingOf (funnel st) \<and>
     data st = foldl (\<lambda>x p. snd p x) d (finished st) \<and>
     set (returned st) \<subseteq> set (map fst (finished st)) \<and>
     distinct (map fst (finished st) @ servingOf (funnel st)) \<and>
     set (map fst (senders st)) \<inter> set (map fst (finished st) @ servingOf (funnel st)) = {}"

section \<open>Properties of write, writeWithContext and openStream\<close>

lemma write_nil_calls_Write:
  "sn px = None \<Longrightarrow>
   write' Write px m w =
     (case Write None m w of
        Inl p \<Rightarrow> Inl p
      | Inr (r, w') \<Rightarrow> Inr (Some ''write failed, session is nil'', w'))"
  by (simp add: write'_def split: sum.splits prod.splits)

lemma writeWithContext_nil:
  "sn px = None \<Longrightarrow>
   writeWithContext WriteWithContext px cxt m w = (Some ''write failed, session is nil'', w)"
  by (simp add: writeWithContext_def)

lemma openStream_nil:
  "sn px = None \<Longrightarrow>
   openStream Sub Unsub px f w = ((0, (\<lambda>p v. (p, v)), Some ''session is nil''), px, w)"
  by (simp add: openStream_def)

lemma New_config0: "New config0 (Some ()) = (Inr px0 :: panic + nat Proxy)"
  by (simp add: New_def config0_def px0_def)

text \<open>
  C1 (no session registered: \<^verbatim>\<open>write\<close>, \<^verbatim>\<open>writeWithContext\<close> and \<^verbatim>\<open>openStream\<close> return
  the error). \<^verbatim>\<open>writeWithContext\<close> and \<^verbatim>\<open>openStream\<close> return at the nil check, as the two
  lemmas above say. \<^verbatim>\<open>write\<close> does not: it records the error and still calls
  \<^verbatim>\<open>px.sn.Write(m)\<close> through the nil pointer (\<open>write_nil_calls_Write\<close>). On the proxy
  that \<^verbatim>\<open>New\<close> returns, with a \<^verbatim>\<open>Write\<close> that reads its receiver, the call panics with a
  nil pointer dereference where \<^verbatim>\<open>writeWithContext\<close> returns the error
  (\<open>px0\<close> is that proxy: \<open>New_config0\<close>).
\<close>

theorem write_nil_session_panics:
  "sn px0 = None \<and>
   write' mWrite px0 ''ping'' world0 = Inl NilPointerDereference \<and>
   writeWithContext mWriteWithContext px0 () ''ping'' world0
     = (Some ''write failed, session is nil'', world0)"
  by (simp add: px0_def write'_def mWrite_def writeWithContext_def)

text \<open>
  C9 (with a session registered, \<^verbatim>\<open>write\<close> returns nil whatever the session's \<^verbatim>\<open>Write\<close>
  returns). For every \<^verbatim>\<open>Write\<close> that returns, with result \<open>r\<close> (an error or nil) and
  world \<open>w'\<close>, \<^verbatim>\<open>write\<close> returns nil and the same world: \<open>r\<close> is dropped.
\<close>

theorem write_discards_Write_error:
  assumes "sn px = Some s" and "Write (Some s) m w = Inr (r, w')"
  shows "write' Write px m w = Inr (None, w')"
  using assms by (simp add: write'_def)

theorem write_discards_Write_error_witness:
  "sn (px0\<lparr>sn := Some 2\<rparr>) = Some 2 \<and>
   mWrite (Some 2) ''ping'' world0 = Inr (Some ''broken pipe'', world0) \<and>
   write' mWrite (px0\<lparr>sn := Some 2\<rparr>) ''ping'' world0 = Inr (None, world0)"
proof -
  have a: "sn (px0\<lparr>sn := Some 2\<rparr>) = Some 2" by simp
  have b: "mWrite (Some 2) ''ping'' world0 = Inr (Some ''broken pipe'', world0)"
    by (simp add: mWrite_def world0_def)
  from write_discards_Write_error [where Write = mWrite, OF a b] a b show ?thesis by simp
qed







section \<open>Properties of newSession and the ping timer\<close>

lemmas newSession_defs = newSession_def logT_def eff_def outside_def setSessionT_def
  setSession_def onTimer_def logln_def logRunErr_def Let_def

lemma newSession_returns:
  "newSession px c hs race = None \<longleftrightarrow> (\<exists>s ts1 ts2. hs = Inr s \<and> race = TimerFirst ts1 None ts2)"
  by (cases hs; cases race) (auto simp: newSession_def Let_def split: option.splits)

lemma newSession_pingTimer_fail:
  "newSession px c (Inl e) r = Some (px', tr) \<Longrightarrow> pingTimer px' = pingTimer px"
  by (auto simp: newSession_defs)

lemma newSession_pingTimer_ok:
  "newSession px c (Inr s) r = Some (px', tr) \<Longrightarrow> pingTimer px' \<noteq> None"
  by (auto simp: newSession_defs split: race.splits option.splits runerr.splits)

text \<open>
  C10 (\<^verbatim>\<open>ResetPingTimer\<close> before any session has been established dereferences a nil
  \<^verbatim>\<open>pingTimer\<close>). On the proxy \<^verbatim>\<open>New\<close> returns the call panics with a nil pointer
  dereference; it still does after a \<^verbatim>\<open>newSession\<close> whose handshake failed; after a
  \<^verbatim>\<open>newSession\<close> whose handshake succeeded it returns.
\<close>

theorem ResetPingTimer_before_first_session:
  assumes "New cfg auth = Inr px"
  shows "ResetPingTimer px = Inl NilPointerDereference \<and>
         (\<forall>c e r px' tr. newSession px c (Inl e) r = Some (px', tr) \<longrightarrow>
              ResetPingTimer px' = Inl NilPointerDereference) \<and>
         (\<forall>c s r px' tr. newSession px c (Inr s) r = Some (px', tr) \<longrightarrow>
              (\<exists>px''. ResetPingTimer px' = Inr px''))"
proof -
  from assms have n: "pingTimer px = None"
    by (auto simp: New_def split: if_splits)
  have 1: "ResetPingTimer px = Inl NilPointerDereference"
    using n by (simp add: ResetPingTimer_def Reset_def)
  have 2: "ResetPingTimer px' = Inl NilPointerDereference"
    if "newSession px c (Inl e) r = Some (px', tr)" for c e r px' tr
    using newSession_pingTimer_fail [OF that] n by (simp add: ResetPingTimer_def Reset_def)
  have 3: "\<exists>px''. ResetPingTimer px' = Inr px''"
    if "newSession px c (Inr s) r = Some (px', tr)" for c s r px' tr
    using newSession_pingTimer_ok [OF that] by (auto simp: ResetPingTimer_def Reset_def)
  from 1 2 3 show ?thesis by blast
qed

theorem ResetPingTimer_before_first_session_witness:
  "New config0 (Some ()) = (Inr px0 :: panic + nat Proxy) \<and>
   ResetPingTimer px0 = Inl NilPointerDereference \<and>
   map_option fst (newSession px0 7 (Inl ''bad key'') (RunFirst [] RunNil))
     = Some (px0\<lparr>log := [Line ''New session'', LineErr ''bad key'', Line ''Session closed'']\<rparr>) \<and>
   ResetPingTimer (px0\<lparr>log := [Line ''New session'', LineErr ''bad key'', Line ''Session closed'']\<rparr>)
     = Inl NilPointerDereference \<and>
   map_option fst (newSession px0 7 (Inr 1) (RunFirst [] RunNil))
     = Some (px0\<lparr>pingTimer := Some NewTimer, log := [Line ''New session'', Line ''Session closed'']\<rparr>) \<and>
   (\<exists>px''. ResetPingTimer (px0\<lparr>pingTimer := Some NewTimer,
                              log := [Line ''New session'', Line ''Session closed'']\<rparr>) = Inr px'')"
proof -
  have n: "New config0 (Some ()) = (Inr px0 :: panic + nat Proxy)"
    by (simp add: New_def config0_def px0_def)
  obtain t1 where f: "newSession px0 7 (Inl ''bad key'') (RunFirst [] RunNil)
     = Some (px0\<lparr>log := [Line ''New session'', LineErr ''bad key'', Line ''Session closed'']\<rparr>, t1)"
    by (simp add: newSession_defs px0_def)
  obtain t2 where g: "newSession px0 7 (Inr 1) (RunFirst [] RunNil)
     = Some (px0\<lparr>pingTimer := Some NewTimer, log := [Line ''New session'', Line ''Session closed'']\<rparr>, t2)"
    by (simp add: newSession_defs px0_def ticks_def)
  note t = ResetPingTimer_before_first_session [OF n]
  from t have 1: "ResetPingTimer px0 = Inl NilPointerDereference" by blast
  from t f
  have 2: "ResetPingTimer (px0\<lparr>log := [Line ''New session'', LineErr ''bad key'', Line ''Session closed'']\<rparr>)
     = Inl NilPointerDereference" by blast
  from t g
  have 3: "\<exists>px''. ResetPingTimer (px0\<lparr>pingTimer := Some NewTimer,
                              log := [Line ''New session'', Line ''Session closed'']\<rparr>) = Inr px''"
    by blast
  from f g have "map_option fst (newSession px0 7 (Inl ''bad key'') (RunFirst [] RunNil))
     = Some (px0\<lparr>log := [Line ''New session'', LineErr ''bad key'', Line ''Session closed'']\<rparr>)"
    and "map_option fst (newSession px0 7 (Inr 1) (RunFirst [] RunNil))
     = Some (px0\<lparr>pingTimer := Some NewTimer, log := [Line ''New session'', Line ''Session closed'']\<rparr>)"
    by simp_all
  with n 1 2 3 show ?thesis by blast
qed

text \<open>
  C4 (when \<^verbatim>\<open>newSession\<close> returns, the slot is empty). If the handshake fails the call
  returns and has written the slot not at all: the slot is as it was, so empty if it was
  empty. If the handshake succeeds and \<^verbatim>\<open>Run\<close> returns, before the timer or after the
  timer has fired and the connection was closed, the call returns with the slot empty,
  whatever it held before: it writes the slot twice, each time between \<^verbatim>\<open>Lock\<close> and
  \<^verbatim>\<open>Unlock\<close>, first with the session, which stays registered until the race is settled
  and \<^verbatim>\<open>Run\<close> has returned, last with nil. (If \<^verbatim>\<open>Run\<close> never returns after the timer
  fired, the call does not return.)
\<close>

theorem newSession_leaves_slot_empty:
  "(\<forall>e. hs = Inl e \<longrightarrow>
      (\<exists>px'. newSession px c hs race = Some (px', []) \<and> sn px' = sn px)) \<and>
   (\<forall>s ts err. hs = Inr s \<and> race = RunFirst ts err \<longrightarrow>
      (\<exists>px'. newSession px c hs race
                = Some (px', [(Lock, sn px), (SetSession (Some s), Some s), (Unlock, Some s),
                              (ArmTimer, Some s), (RunDone err, Some s),
                              (Lock, Some s), (SetSession None, None), (Unlock, None)]) \<and>
             sn px' = None)) \<and>
   (\<forall>s ts1 err ts2. hs = Inr s \<and> race = TimerFirst ts1 (Some err) ts2 \<longrightarrow>
      (\<exists>px'. newSession px c hs race
                = Some (px', [(Lock, sn px), (SetSession (Some s), Some s), (Unlock, Some s),
                              (ArmTimer, Some s), (TimerFired, Some s), (CloseConn c, Some s),
                              (RunDone err, Some s),
                              (Lock, Some s), (SetSession None, None), (Unlock, None)]) \<and>
             sn px' = None)) \<and>
   (\<forall>s ts1 ts2. hs = Inr s \<and> race = TimerFirst ts1 None ts2 \<longrightarrow>
      newSession px c hs race = None) \<and>
   (\<forall>px' tr. newSession px c hs race = Some (px', tr) \<and> sn px = None \<longrightarrow> sn px' = None)"
  by (cases hs; cases race)
     (auto simp: newSession_defs split: option.splits runerr.splits)

theorem newSession_leaves_slot_empty_witness:
  "(\<exists>px'. newSession (px0\<lparr>sn := Some 5\<rparr>) 7 (Inl ''bad key'') (RunFirst [] RunNil) = Some (px', []) \<and>
          sn px' = Some 5) \<and>
   (\<exists>px'. newSession (px0\<lparr>sn := Some 5\<rparr>) 7 (Inr 1) (RunFirst [Expires] (RunErr ''reset''))
            = Some (px', [(Lock, Some 5), (SetSession (Some 1), Some 1), (Unlock, Some 1),
                          (ArmTimer, Some 1), (RunDone (RunErr ''reset''), Some 1),
                          (Lock, Some 1), (SetSession None, None), (Unlock, None)]) \<and>
          sn px' = None) \<and>
   (\<exists>px'. newSession (px0\<lparr>sn := Some 5\<rparr>) 7 (Inr 1) (TimerFirst [] (Some RunEOF) [])
            = Some (px', [(Lock, Some 5), (SetSession (Some 1), Some 1), (Unlock, Some 1),
                          (ArmTimer, Some 1), (TimerFired, Some 1), (CloseConn 7, Some 1),
                          (RunDone RunEOF, Some 1),
                          (Lock, Some 1), (SetSession None, None), (Unlock, None)]) \<and>
          sn px' = None) \<and>
   newSession (px0\<lparr>sn := Some 5\<rparr>) 7 (Inr 1) (TimerFirst [] None []) = None \<and>
   (\<exists>px'. newSession px0 7 (Inl ''bad key'') (RunFirst [] RunNil) = Some (px', []) \<and> sn px' = None)"
proof -
  let ?p = "px0\<lparr>sn := Some (5::nat)\<rparr>"
  have s5: "sn ?p = Some 5" and s0: "sn px0 = None" by (simp_all add: px0_def)
  from newSession_leaves_slot_empty [of "Inl ''bad key''" ?p 7 "RunFirst [] RunNil"] s5
  have 1: "\<exists>px'. newSession ?p 7 (Inl ''bad key'') (RunFirst [] RunNil) = Some (px', []) \<and>
          sn px' = Some 5" by simp
  from newSession_leaves_slot_empty [of "Inr 1" ?p 7 "RunFirst [Expires] (RunErr ''reset'')"] s5
  have 2: "\<exists>px'. newSession ?p 7 (Inr 1) (RunFirst [Expires] (RunErr ''reset''))
            = Some (px', [(Lock, Some 5), (SetSession (Some 1), Some 1), (Unlock, Some 1),
                          (ArmTimer, Some 1), (RunDone (RunErr ''reset''), Some 1),
                          (Lock, Some 1), (SetSession None, None), (Unlock, None)]) \<and>
          sn px' = None" by simp
  from newSession_leaves_slot_empty [of "Inr 1" ?p 7 "TimerFirst [] (Some RunEOF) []"] s5
  have 3: "\<exists>px'. newSession ?p 7 (Inr 1) (TimerFirst [] (Some RunEOF) [])
            = Some (px', [(Lock, Some 5), (SetSession (Some 1), Some 1), (Unlock, Some 1),
                          (ArmTimer, Some 1), (TimerFired, Some 1), (CloseConn 7, Some 1),
                          (RunDone RunEOF, Some 1),
                          (Lock, Some 1), (SetSession None, None), (Unlock, None)]) \<and>
          sn px' = None" by simp
  from newSession_leaves_slot_empty [of "Inr 1" ?p 7 "TimerFirst [] None []"]
  have 4: "newSession ?p 7 (Inr 1) (TimerFirst [] None []) = None" by simp
  from newSession_leaves_slot_empty [of "Inl ''bad key''" px0 7 "RunFirst [] RunNil"] s0
  have 5: "\<exists>px'. newSession px0 7 (Inl ''bad key'') (RunFirst [] RunNil) = Some (px', []) \<and>
          sn px' = None" by simp
  from 1 2 3 4 5 show ?thesis by blast
qed









section \<open>The steps, one by one\<close>

text \<open>
  Each step written as a relation: when it is enabled and what state it leads to.
\<close>

lemma accept_Some:
  "accept c st = Some st' \<longleftrightarrow> acceptor st = Accepting \<and> lnOpen st \<and> st' = st\<lparr>acceptor := Offering c\<rparr>"
  by (auto simp: accept_def)

lemma acceptError_Some:
  "acceptError e st = Some st' \<longleftrightarrow>
     acceptor st = Accepting \<and>
     st' = (if quit st then st\<lparr>acceptor := AcceptorExited, wg := wg st - 1\<rparr>
            else st\<lparr>proxy := logln (LineErr e) (proxy st)\<rparr>)"
  by (auto simp: acceptError_def)

lemma offerTimeout_Some:
  "offerTimeout st = Some st' \<longleftrightarrow>
     (\<exists>c. acceptor st = Offering c \<and>
          st' = st\<lparr>proxy := logln (LineConn ''Close connection, only one connection is allowed'' c) (proxy st),
                    closed := closed st @ [c], acceptor := Accepting\<rparr>)"
  by (auto simp: offerTimeout_def split: acceptor.splits)

lemma handoff_Some:
  "handoff st = Some st' \<longleftrightarrow>
     (\<exists>c. acceptor st = Offering c \<and> handler st = AwaitConn \<and>
          st' = st\<lparr>acceptor := Accepting, handler := AwaitExec c\<rparr>)"
  by (auto simp: handoff_def split: acceptor.splits)

lemma handlerQuit_Some:
  "handlerQuit st = Some st' \<longleftrightarrow>
     handler st = AwaitConn \<and> quit st \<and> st' = st\<lparr>handler := HandlerExited, wg := wg st - 1\<rparr>"
  by (auto simp: handlerQuit_def)

lemma execTimeout_Some:
  "execTimeout st = Some st' \<longleftrightarrow>
     (\<exists>c. handler st = AwaitExec c \<and>
          st' = st\<lparr>proxy := logln (LineConn ''Close connection, only one connection is allowed'' c) (proxy st),
                    closed := closed st @ [c], handler := HandlerExited, wg := wg st - 1\<rparr>)"
  by (auto simp: execTimeout_def split: handler.splits)

lemma exec_Some:
  "exec st = Some st' \<longleftrightarrow>
     (\<exists>c. handler st = AwaitExec c \<and> execFuncC st \<and>
          st' = st\<lparr>execFuncC := False, handler := Handshaking c,
                    proxy := logln (Line ''New session'') (proxy st)\<rparr>)"
  by (auto simp: exec_def split: handler.splits)

lemma handshakeFails_Some:
  "handshakeFails e st = Some st' \<longleftrightarrow>
     (\<exists>c. handler st = Handshaking c \<and>
          st' = recycle (st\<lparr>proxy := logln (Line ''Session closed'') (logln (LineErr e) (proxy st))\<rparr>))"
  by (auto simp: handshakeFails_def split: handler.splits)

lemma handshakeOK_Some:
  "handshakeOK s st = Some st' \<longleftrightarrow>
     (\<exists>c. handler st = Handshaking c \<and>
          st' = st\<lparr>proxy := (setSession (Some s) (proxy st))\<lparr>pingTimer := Some NewTimer\<rparr>,
                    handler := Racing c s\<rparr>)"
  by (auto simp: handshakeOK_def split: handler.splits)

lemma runReturns_Some:
  "runReturns err st = Some st' \<longleftrightarrow>
     (\<exists>c s. handler st = Racing c s \<and>
          st' = recycle (st\<lparr>proxy := logln (Line ''Session closed'')
                                       (setSession None (logRunErr err (proxy st)))\<rparr>))"
  by (auto simp: runReturns_def split: handler.splits)

lemma pingTimeout_Some:
  "pingTimeout st = Some st' \<longleftrightarrow>
     (\<exists>c s. handler st = Racing c s \<and>
          st' = st\<lparr>proxy := onTimer fire (proxy st),
                    closed := closed st @ [c], handler := Closing c s\<rparr>)"
  by (auto simp: pingTimeout_def split: handler.splits)

lemma runReturnsAfterClose_Some:
  "runReturnsAfterClose err st = Some st' \<longleftrightarrow>
     (\<exists>c s. handler st = Closing c s \<and>
          st' = recycle (st\<lparr>proxy := logln (Line ''Session closed'') (setSession None (proxy st))\<rparr>))"
  by (auto simp: runReturnsAfterClose_def split: handler.splits)

lemma strand_Some:
  "strand i f st = Some st' \<longleftrightarrow>
     i \<notin> set (map fst (senders st)) \<and> i \<notin> set (received st) \<and>
     st' = st\<lparr>senders := senders st @ [(i, f)]\<rparr>"
  by (auto simp: strand_def)

lemma funnelRecv_Some:
  "funnelRecv i st = Some st' \<longleftrightarrow>
     (\<exists>f. funnel st = FunnelIdle \<and> map_of (senders st) i = Some f \<and>
          st' = st\<lparr>funnel := Serving i f,
                    senders := filter (\<lambda>p. fst p \<noteq> i) (senders st),
                    received := received st @ [i]\<rparr>)"
  by (auto simp: funnelRecv_def split: funnel.splits option.splits)

lemma funnelDone_Some:
  "funnelDone st = Some st' \<longleftrightarrow>
     (\<exists>i f. funnel st = Serving i f \<and>
          st' = st\<lparr>data := f (data st), finished := finished st @ [(i, f)], funnel := FunnelIdle\<rparr>)"
  by (auto simp: funnelDone_def split: funnel.splits)

lemma strandReturn_Some:
  "strandReturn i st = Some st' \<longleftrightarrow>
     i \<in> set (map fst (finished st)) \<and> i \<notin> set (returned st) \<and>
     st' = st\<lparr>returned := returned st @ [i]\<rparr>"
  by (auto simp: strandReturn_def)

lemma funnelQuit_Some:
  "funnelQuit st = Some st' \<longleftrightarrow>
     funnel st = FunnelIdle \<and> quit st \<and> st' = st\<lparr>funnel := FunnelExited, wg := wg st - 1\<rparr>"
  by (auto simp: funnelQuit_def split: funnel.splits)

lemma httpReturns_Some:
  "httpReturns r st = Some st' \<longleftrightarrow>
     http st \<and>
     st' = st\<lparr>http := False,
               errC := (case r of None \<Rightarrow> errC st | Some e \<Rightarrow> if quit st then errC st else Some e),
               wg := wg st - 1\<rparr>"
  by (auto simp: httpReturns_def)

lemma waitDone_Some:
  "waitDone st = Some st' \<longleftrightarrow> wg st = 0 \<and> \<not> done' st \<and> st' = st\<lparr>done' := True\<rparr>"
  by (auto simp: waitDone_def)

lemma returnNil_Some:
  "returnNil st = Some st' \<longleftrightarrow> done' st \<and> result st = None \<and> st' = st\<lparr>result := Some None\<rparr>"
  by (auto simp: returnNil_def)

lemma returnErr_Some:
  "returnErr st = Some st' \<longleftrightarrow>
     (\<exists>e. errC st = Some e \<and> result st = None \<and> st' = st\<lparr>result := Some (Some e), errC := None\<rparr>)"
  by (auto simp: returnErr_def split: option.splits)

lemma shutdown_Some:
  "shutdown st = Some st' \<longleftrightarrow> \<not> quit st \<and> st' = closeSession (st\<lparr>quit := True, lnOpen := False\<rparr>)"
  by (auto simp: shutdown_def)

lemmas step_Some = accept_Some acceptError_Some offerTimeout_Some handoff_Some handlerQuit_Some
  execTimeout_Some exec_Some handshakeFails_Some handshakeOK_Some runReturns_Some
  pingTimeout_Some runReturnsAfterClose_Some strand_Some funnelRecv_Some funnelDone_Some
  strandReturn_Some funnelQuit_Some httpReturns_Some waitDone_Some returnNil_Some
  returnErr_Some shutdown_Some

lemmas step_defs = accept_def acceptError_def offerTimeout_def handoff_def handlerQuit_def
  execTimeout_def exec_def recycle_def handshakeFails_def handshakeOK_def runReturns_def
  pingTimeout_def runReturnsAfterClose_def strand_def funnelRecv_def funnelDone_def
  strandReturn_def funnelQuit_def httpReturns_def waitDone_def returnNil_def returnErr_def
  closeSession_def shutdown_def

lemmas run_eval = step_defs start_def logln_def setSession_def logRunErr_def NewTimer_def
  expire_def receiveC_def px0_def onTimer_def fire_def













section \<open>Runs and invariants\<close>

lemma run_append:
  "run (es @ fs) st = (case run es st of None \<Rightarrow> None | Some st' \<Rightarrow> run fs st')"
  by (induction es arbitrary: st) (auto split: option.splits)

lemma run_invariant:
  assumes "\<And>e s s'. P s \<Longrightarrow> step e s = Some s' \<Longrightarrow> P s'"
    and "P st" and "run es st = Some st'"
  shows "P st'"
  using assms(2,3)
proof (induction es arbitrary: st)
  case Nil
  then show ?case by simp
next
  case (Cons e es)
  then show ?case by (auto split: option.splits intro: assms(1))
qed


lemma slot_inv_step: "slot_inv st \<Longrightarrow> step e st = Some st' \<Longrightarrow> slot_inv st'"
  by (cases e)
     (auto simp: step_Some slot_inv_def recycle_def closeSession_def logln_def setSession_def
                 logRunErr_def onTimer_def
           split: option.splits runerr.splits)

lemma token_inv_step: "token_inv st \<Longrightarrow> step e st = Some st' \<Longrightarrow> token_inv st'"
  by (cases e) (auto simp: step_Some token_inv_def recycle_def closeSession_def split: option.splits)





lemma start_invs:
  "sn p = None \<Longrightarrow> slot_inv (start p d)"
  "token_inv (start p d)" "err_inv (start p d)" "join_inv (start p d)" "funnel_inv d (start p d)"
  by (simp_all add: start_def slot_inv_def token_inv_def err_inv_def join_inv_def running_def
        funnel_inv_def)

lemma reach_slot_inv: "sn p = None \<Longrightarrow> run es (start p d) = Some st \<Longrightarrow> slot_inv st"
  by (rule run_invariant [where P = slot_inv and st = "start p d"])
     (auto intro: slot_inv_step start_invs)

lemma reach_token_inv: "run es (start p d) = Some st \<Longrightarrow> token_inv st"
  by (rule run_invariant [where P = token_inv and st = "start p d"])
     (auto intro: token_inv_step start_invs)




lemma slotOf_Some: "slotOf h = Some s \<longleftrightarrow> (\<exists>c. h = Racing c s \<or> h = Closing c s)"
  by (cases h) auto








text \<open>
  The start of \<^verbatim>\<open>Run\<close>, and the steps of a session against the function
  \<open>newSession\<close>: they change the proxy the same way.
\<close>

lemma Run_start:
  "Run p None d = Inr (start p d)"
  "\<not> withoutTeller p \<Longrightarrow> Run p (Some e) d = Inl e"
  "withoutTeller p \<Longrightarrow> Run p listen d = Inr (start p d)"
  by (simp_all add: Run_def)



lemma session_steps_agree:
  assumes "handler st = AwaitExec c" and "execFuncC st"
  shows "map_option proxy (run [Exec, HandshakeFails e] st)
           = map_option fst (newSession (proxy st) c (Inl e) race)"
    and "map_option proxy (run [Exec, HandshakeOK s, RunReturns err] st)
           = map_option fst (newSession (proxy st) c (Inr s) (RunFirst [] err))"
    and "map_option proxy (run [Exec, HandshakeOK s, PingTimeout, RunReturnsAfterClose err] st)
           = map_option fst (newSession (proxy st) c (Inr s) (TimerFirst [] (Some err) []))"
  using assms
  by (simp_all add: step_defs newSession_defs ticks_def split: runerr.splits)

section \<open>One session at a time\<close>

text \<open>
  C3 (a second connection that arrives while a session is active is rejected and closed,
  never queued). It is rejected only if the one-second timer of the accept loop fires
  first. In this run connection 2 arrives while session 10 of connection 1 is registered;
  the session's \<^verbatim>\<open>Run\<close> returns before the timer fires, the handler loop puts the token
  back and receives connection 2 from the accept loop, which is still offering it, and
  session 20 is registered for it. Connection 2 was never closed.
\<close>

theorem second_connection_admitted:
  "map_option (\<lambda>st. (sn (proxy st), acceptor st, closed st))
     (run [Accept 1, Handoff, Exec, HandshakeOK 10, Accept 2] (start px0 ()))
     = Some (Some 10, Offering 2, []) \<and>
   map_option (\<lambda>st. (sn (proxy st), handler st, acceptor st, closed st))
     (run [Accept 1, Handoff, Exec, HandshakeOK 10, Accept 2, RunReturns RunNil, Handoff, Exec,
           HandshakeOK 20] (start px0 ()))
     = Some (Some 20, Racing 2 20, Accepting, [])"
  by (simp add: run_eval)

text \<open>
  C3 as the code has it, in every state a run reaches from the start of \<^verbatim>\<open>Run\<close> with an
  empty slot: the slot holds a session exactly when the handler loop is inside
  \<^verbatim>\<open>newSession\<close> with that session (so at most one is registered, the one being served);
  while it holds one, no connection can be handed to the handler loop, the token cannot
  be taken and no session can be registered; a session is registered only into an empty
  slot; and a connection the accept loop holds while a session is registered can leave
  the accept loop only by the timeout, which closes it.
\<close>

theorem one_session_at_a_time:
  assumes "sn p = None" and "run es (start p d) = Some st"
  shows "(\<forall>s. sn (proxy st) = Some s \<longleftrightarrow> (\<exists>c. handler st = Racing c s \<or> handler st = Closing c s)) \<and>
         (\<forall>s. sn (proxy st) = Some s \<longrightarrow>
            step Handoff st = None \<and> step Exec st = None \<and> (\<forall>t. step (HandshakeOK t) st = None)) \<and>
         (\<forall>t st'. step (HandshakeOK t) st = Some st' \<longrightarrow>
            sn (proxy st) = None \<and> sn (proxy st') = Some t) \<and>
         (\<forall>s c e st'. sn (proxy st) = Some s \<and> acceptor st = Offering c \<and>
            step e st = Some st' \<and> acceptor st' \<noteq> Offering c \<longrightarrow>
            e = OfferTimeout \<and> c \<in> set (closed st'))"
proof -
  have inv: "slot_inv st"
    using assms by (rule reach_slot_inv)
  then have a: "\<forall>s. sn (proxy st) = Some s \<longleftrightarrow> (\<exists>c. handler st = Racing c s \<or> handler st = Closing c s)"
    by (simp add: slot_inv_def slotOf_Some)
  have b: "step Handoff st = None \<and> step Exec st = None \<and> (\<forall>t. step (HandshakeOK t) st = None)"
    if "sn (proxy st) = Some s" for s
  proof -
    from that a obtain c where "handler st = Racing c s \<or> handler st = Closing c s" by blast
    then show ?thesis
      by (auto simp: handoff_def exec_def handshakeOK_def split: acceptor.splits)
  qed
  have c: "sn (proxy st) = None \<and> sn (proxy st') = Some t"
    if "step (HandshakeOK t) st = Some st'" for t st'
    using that inv by (auto simp: handshakeOK_Some slot_inv_def setSession_def)
  have d: "e = OfferTimeout \<and> c \<in> set (closed st')"
    if "sn (proxy st) = Some s" "acceptor st = Offering c" "step e st = Some st'"
       "acceptor st' \<noteq> Offering c" for s c e st'
  proof -
    from that(1) a obtain k where h: "handler st = Racing k s \<or> handler st = Closing k s" by blast
    with that(2,3,4) show ?thesis
      by (cases e)
         (auto simp: step_Some recycle_def closeSession_def onTimer_def
               split: option.splits if_splits)
  qed
  from a b c d show ?thesis by blast
qed

theorem one_session_at_a_time_witness:
  "\<exists>st. run [Accept 1, Handoff, Exec, HandshakeOK 10, Accept 2] (start px0 ()) = Some st \<and>
        sn (proxy st) = Some 10 \<and> handler st = Racing 1 10 \<and>
        step Handoff st = None \<and> step Exec st = None \<and> step (HandshakeOK 20) st = None \<and>
        (\<exists>st'. step OfferTimeout st = Some st' \<and> 2 \<in> set (closed st'))"
proof -
  have z: "sn px0 = None" by (simp add: px0_def)
  obtain st where r: "run [Accept 1, Handoff, Exec, HandshakeOK 10, Accept 2] (start px0 ()) = Some st"
    and s: "sn (proxy st) = Some (10::nat)" and a: "acceptor st = Offering 2"
    and h: "handler st = Racing 1 10"
    by (simp add: run_eval)
  obtain st' where o: "step OfferTimeout st = Some st'" and n: "acceptor st' \<noteq> Offering 2"
    using a by (simp add: offerTimeout_def)
  note t = one_session_at_a_time [OF z r]
  from t s a o n have "2 \<in> set (closed st')" by blast
  with t s r h o show ?thesis by blast
qed

section \<open>The handler loop after its two-second timeout\<close>



section \<open>What Run returns\<close>




section \<open>strand\<close>



end
